theory Spec2Isabelle
  imports Main
begin

section \<open>HTTP surface: \<^verbatim>\<open>app/views.py\<close>\<close>

text \<open>
  A request carries its method and its query string. Django's \<^verbatim>\<open>request.GET\<close> is a
  multi-valued dictionary; it is kept as the list of (key, value) pairs in query-string
  order. \<^verbatim>\<open>HttpResponse(content)\<close> builds a response with status 200.
\<close>

record HttpRequest =
  "method" :: string
  GET :: "(string \<times> string) list"

record HttpResponse =
  content :: string
  status_code :: nat

definition HttpResponse :: "string \<Rightarrow> HttpResponse" where
  "HttpResponse body = \<lparr>content = body, status_code = 200\<rparr>"

text \<open>
  \<^verbatim>\<open>dummypage\<close>: the only \<^verbatim>\<open>return\<close> sits under \<^verbatim>\<open>if request.method == "GET"\<close>; on any
  other method the Python function runs off its end and yields \<^verbatim>\<open>None\<close>.
\<close>

definition dummypage :: "HttpRequest \<Rightarrow> HttpResponse option" where
  "dummypage request =
     (if method request = ''GET'' then Some (HttpResponse ''No content here, sorry!'')
      else None)"

subsection \<open>\<^verbatim>\<open>current_time\<close>\<close>

text \<open>
  Python's \<^verbatim>\<open>datetime\<close> arithmetic, as \<^verbatim>\<open>datetime.py\<close> does it. A date is kept as its
  proleptic Gregorian ordinal (\<^verbatim>\<open>date.toordinal()\<close>, day 1 is 0001-01-01), which is what
  \<^verbatim>\<open>datetime.__add__\<close> converts to before it adds. The \<^verbatim>\<open>timedelta\<close> constructor
  normalises its arguments so that \<open>0 \<le> seconds < 86400\<close> and
  \<open>0 \<le> microseconds < 1000000\<close>, and the sum of two is built by the constructor. A result outside \<open>1 .. _MAXORDINAL\<close> raises
  \<^verbatim>\<open>OverflowError\<close>. The reading of the clock, \<^verbatim>\<open>datetime.datetime.utcnow()\<close>, is an
  argument of the handler.
\<close>

datatype error = IntegrityError | ProtectedError | OverflowError | FileNotFoundError

record timedelta =
  days :: int
  seconds :: int
  microseconds :: int

record datetime =
  ordinal :: int
  hour :: int
  minute :: int
  second :: int
  microsecond :: int

definition MAXORDINAL :: int where
  "MAXORDINAL = 3652059"

definition timedelta :: "int \<Rightarrow> int \<Rightarrow> int \<Rightarrow> timedelta" where
  "timedelta d s us =
     (let s' = s + us div 1000000
      in \<lparr>days = d + s' div 86400, seconds = s' mod 86400, microseconds = us mod 1000000\<rparr>)"

definition timedelta_hours :: "int \<Rightarrow> timedelta" where
  "timedelta_hours h = timedelta 0 (h * 3600) 0"

definition timedelta_neg :: "timedelta \<Rightarrow> timedelta" where
  "timedelta_neg td = timedelta (- days td) (- seconds td) (- microseconds td)"

definition timedelta_add :: "timedelta \<Rightarrow> timedelta \<Rightarrow> timedelta" where
  "timedelta_add a b =
     timedelta (days a + days b) (seconds a + seconds b) (microseconds a + microseconds b)"

definition datetime_add :: "datetime \<Rightarrow> timedelta \<Rightarrow> error + datetime" where
  "datetime_add dt other =
     (let delta = timedelta_add
                    (timedelta (ordinal dt) (hour dt * 3600 + minute dt * 60 + second dt)
                       (microsecond dt))
                    other;
          h = seconds delta div 3600;
          rem = seconds delta mod 3600
      in if 0 < days delta \<and> days delta \<le> MAXORDINAL
         then Inr \<lparr>ordinal = days delta, hour = h, minute = rem div 60, second = rem mod 60,
                   microsecond = microseconds delta\<rparr>
         else Inl OverflowError)"

definition datetime_sub :: "datetime \<Rightarrow> timedelta \<Rightarrow> error + datetime" where
  "datetime_sub dt other = datetime_add dt (timedelta_neg other)"

definition digit :: "int \<Rightarrow> char" where
  "digit d = ''0123456789'' ! nat d"

definition two_digits :: "int \<Rightarrow> string" where
  "two_digits n = [digit (n div 10), digit (n mod 10)]"

definition strftime_HM :: "datetime \<Rightarrow> string" where
  "strftime_HM dt = two_digits (hour dt) @ '':'' @ two_digits (minute dt)"

definition current_time :: "datetime \<Rightarrow> error + HttpResponse" where
  "current_time utc_now =
     (case datetime_sub utc_now (timedelta_hours 5) of
        Inl e \<Rightarrow> Inl e
      | Inr cdt_now \<Rightarrow> Inr (HttpResponse (strftime_HM cdt_now)))"

text \<open>
  What the claim is measured against: a well-formed reading of the clock, and the instant it
  denotes, in microseconds since the start of day 0.
\<close>

definition valid_datetime :: "datetime \<Rightarrow> bool" where
  "valid_datetime dt \<longleftrightarrow>
     1 \<le> ordinal dt \<and> ordinal dt \<le> MAXORDINAL \<and> 0 \<le> hour dt \<and> hour dt < 24 \<and>
     0 \<le> minute dt \<and> minute dt < 60 \<and> 0 \<le> second dt \<and> second dt < 60 \<and>
     0 \<le> microsecond dt \<and> microsecond dt < 1000000"

definition instant :: "datetime \<Rightarrow> int" where
  "instant dt =
     (((ordinal dt * 24 + hour dt) * 60 + minute dt) * 60 + second dt) * 1000000 + microsecond dt"

subsection \<open>\<^verbatim>\<open>add_numbers\<close>\<close>

text \<open>
  \<^verbatim>\<open>request.GET.get(key, 0)\<close> yields the last value supplied for the key, a string, or the
  integer default. \<^verbatim>\<open>float\<close> converts an integer directly and parses a string, raising
  \<^verbatim>\<open>ValueError\<close> with a message when the string is no number. Binary floating point is
  not modelled: the four operations the handler uses are taken as an interface, with the
  exception of the parser as \<open>Inl\<close> of its message. Nothing else in the \<^verbatim>\<open>try\<close> block can
  raise. \<^verbatim>\<open>f"Error: {e}"\<close> is the text \<^verbatim>\<open>Error: \<close> followed by the message.
\<close>

datatype py_value = PyStr string | PyInt int

record 'f float_ops =
  float_of_str :: "string \<Rightarrow> string + 'f"
  float_of_int :: "int \<Rightarrow> 'f"
  float_add :: "'f \<Rightarrow> 'f \<Rightarrow> 'f"
  float_str :: "'f \<Rightarrow> string"

definition QueryDict_getitem :: "(string \<times> string) list \<Rightarrow> string \<Rightarrow> string option" where
  "QueryDict_getitem q key =
     (case filter (\<lambda>kv. fst kv = key) q of [] \<Rightarrow> None | kvs \<Rightarrow> Some (snd (last kvs)))"

definition QueryDict_get :: "(string \<times> string) list \<Rightarrow> string \<Rightarrow> py_value \<Rightarrow> py_value" where
  "QueryDict_get q key dflt =
     (case QueryDict_getitem q key of None \<Rightarrow> dflt | Some v \<Rightarrow> PyStr v)"

definition py_float :: "'f float_ops \<Rightarrow> py_value \<Rightarrow> string + 'f" where
  "py_float F v = (case v of PyInt i \<Rightarrow> Inr (float_of_int F i) | PyStr s \<Rightarrow> float_of_str F s)"

definition add_numbers :: "'f float_ops \<Rightarrow> HttpRequest \<Rightarrow> HttpResponse" where
  "add_numbers F request =
     (case py_float F (QueryDict_get (GET request) ''n1'' (PyInt 0)) of
        Inl e \<Rightarrow> HttpResponse (''Error: '' @ e)
      | Inr n1 \<Rightarrow>
          (case py_float F (QueryDict_get (GET request) ''n2'' (PyInt 0)) of
             Inl e \<Rightarrow> HttpResponse (''Error: '' @ e)
           | Inr n2 \<Rightarrow> HttpResponse (float_str F (float_add F n1 n2))))"

text \<open>
  A small instance of the interface, on the natural numbers written in decimal, to run the
  handler on concrete requests.
\<close>

fun parse_digits :: "nat \<Rightarrow> string \<Rightarrow> nat option" where
  "parse_digits acc [] = Some acc"
| "parse_digits acc (c # cs) =
     (if c \<in> set ''0123456789''
      then parse_digits (10 * acc + (of_char c - 48)) cs
      else None)"

fun show_nat :: "nat \<Rightarrow> string" where
  "show_nat n = (if n < 10 then [digit (int n)] else show_nat (n div 10) @ [digit (int (n mod 10))])"

declare show_nat.simps [simp del]

definition decimal_ops :: "nat float_ops" where
  "decimal_ops =
     \<lparr>float_of_str = (\<lambda>s. case (if s = [] then None else parse_digits 0 s) of
                             None \<Rightarrow> Inl (''could not convert string to float: '' @ s)
                           | Some n \<Rightarrow> Inr n),
      float_of_int = nat,
      float_add = (+),
      float_str = (\<lambda>n. show_nat n @ ''.0'')\<rparr>"

section \<open>The schema: \<^verbatim>\<open>app/robot-models.py\<close>\<close>

text \<open>
  The repository holds two schemas. \<^verbatim>\<open>app/models.py\<close> has nullable author references
  (\<^verbatim>\<open>SET_NULL\<close>), a Media table with one foreign key per parent type and likes on posts only;
  \<^verbatim>\<open>app/robot-models.py\<close> has the generic relations. The second one is embedded here.

  The models are declarations; what they do is what Django does with them. The part of
  Django that the properties below depend on is written out: default values on
  construction, the checks of an \<^verbatim>\<open>INSERT\<close> (\<^verbatim>\<open>NOT NULL\<close>, foreign keys, unique
  constraints; a violation raises \<^verbatim>\<open>IntegrityError\<close>), and the deletion collector
  (\<^verbatim>\<open>django.db.models.deletion.Collector\<close>), which follows each reverse foreign key
  according to its \<^verbatim>\<open>on_delete\<close> and each \<^verbatim>\<open>GenericRelation\<close> of a deleted object.
\<close>

subsection \<open>Declarations\<close>

text \<open>One \<^verbatim>\<open>ContentType\<close> row exists per model; it is the type tag of a generic reference.\<close>

datatype ContentType = CT_User | CT_BlockReason | CT_Post | CT_Comment | CT_Media | CT_Like

datatype on_delete = CASCADE | PROTECT | SET_NULL

record ForeignKey =
  to_model :: ContentType
  on_delete :: on_delete

record FieldFile =
  file_name :: string
  file_size :: "nat option"

record User =
  user_pk :: nat
  user_role :: string
  user_nickname :: string
  user_avatar :: "string option"
  user_bio :: string

record BlockReason =
  reason_pk :: nat
  reason_code :: string
  reason_description :: string

record Post =
  post_pk :: nat
  post_author :: nat
  post_text :: string
  post_created_at :: nat
  post_is_hidden :: bool
  post_hidden_reason :: "nat option"
  post_hidden_by :: "nat option"
  post_hidden_at :: "nat option"

record Comment =
  comment_pk :: nat
  comment_post :: nat
  comment_author :: nat
  comment_text :: string
  comment_created_at :: nat
  comment_is_hidden :: bool
  comment_hidden_reason :: "nat option"
  comment_hidden_by :: "nat option"
  comment_hidden_at :: "nat option"

text \<open>
  A \<^verbatim>\<open>Media\<close> value is the Python object: before its first save it has no primary key and
  \<^verbatim>\<open>size_bytes\<close> may be \<^verbatim>\<open>None\<close>. \<open>file_size\<close> is what \<^verbatim>\<open>self.file.size\<close> answers when it
  is asked: the length of the underlying file at that moment, or \<open>None\<close> when the storage
  has no file of that name and the property raises \<^verbatim>\<open>FileNotFoundError\<close>. A \<^verbatim>\<open>FieldFile\<close> is
  true when its name is not empty.
\<close>

record Media =
  media_pk :: "nat option"
  media_file :: FieldFile
  media_size_bytes :: "nat option"
  media_uploaded_at :: nat
  media_content_type :: ContentType
  media_object_id :: nat
  media_uploader_content_type :: ContentType
  media_uploader_object_id :: nat

record Like =
  like_pk :: nat
  like_user :: nat
  like_created_at :: nat
  like_content_type :: ContentType
  like_object_id :: nat

record 'r GenericRelation =
  content_type_field :: "'r \<Rightarrow> ContentType"
  object_id_field :: "'r \<Rightarrow> nat"

definition ADMINISTRATOR :: string where
  "ADMINISTRATOR = ''admin''"

definition SERF :: string where
  "SERF = ''serf''"

definition ROLE_CHOICES :: "(string \<times> string) list" where
  "ROLE_CHOICES = [(ADMINISTRATOR, ''Administrator''), (SERF, ''Serf'')]"

definition User_uploads :: "Media GenericRelation" where
  "User_uploads = \<lparr>content_type_field = media_uploader_content_type,
                    object_id_field = media_uploader_object_id\<rparr>"

definition Post_author :: ForeignKey where
  "Post_author = \<lparr>to_model = CT_User, on_delete = CASCADE\<rparr>"

definition Post_hidden_reason :: ForeignKey where
  "Post_hidden_reason = \<lparr>to_model = CT_BlockReason, on_delete = SET_NULL\<rparr>"

definition Post_hidden_by :: ForeignKey where
  "Post_hidden_by = \<lparr>to_model = CT_User, on_delete = SET_NULL\<rparr>"

definition Post_media_items :: "Media GenericRelation" where
  "Post_media_items = \<lparr>content_type_field = media_content_type,
                        object_id_field = media_object_id\<rparr>"

definition Post_likes :: "Like GenericRelation" where
  "Post_likes = \<lparr>content_type_field = like_content_type, object_id_field = like_object_id\<rparr>"

definition Comment_post :: ForeignKey where
  "Comment_post = \<lparr>to_model = CT_Post, on_delete = CASCADE\<rparr>"

definition Comment_author :: ForeignKey where
  "Comment_author = \<lparr>to_model = CT_User, on_delete = CASCADE\<rparr>"

definition Comment_hidden_reason :: ForeignKey where
  "Comment_hidden_reason = \<lparr>to_model = CT_BlockReason, on_delete = SET_NULL\<rparr>"

definition Comment_hidden_by :: ForeignKey where
  "Comment_hidden_by = \<lparr>to_model = CT_User, on_delete = SET_NULL\<rparr>"

definition Comment_media_items :: "Media GenericRelation" where
  "Comment_media_items = \<lparr>content_type_field = media_content_type,
                           object_id_field = media_object_id\<rparr>"

definition Comment_likes :: "Like GenericRelation" where
  "Comment_likes = \<lparr>content_type_field = like_content_type, object_id_field = like_object_id\<rparr>"

definition Like_user :: ForeignKey where
  "Like_user = \<lparr>to_model = CT_User, on_delete = CASCADE\<rparr>"

text \<open>
  \<^verbatim>\<open>UniqueConstraint(fields=["user", "content_type", "object_id"], name="unique_user_like")\<close>:
  the constraint is the tuple of a row's values in these fields.
\<close>

definition unique_user_like :: "Like \<Rightarrow> nat \<times> ContentType \<times> nat" where
  "unique_user_like l = (like_user l, like_content_type l, like_object_id l)"

subsection \<open>The database\<close>

record db =
  app_user :: "User list"
  app_blockreason :: "BlockReason list"
  app_post :: "Post list"
  app_comment :: "Comment list"
  app_media :: "Media list"
  app_like :: "Like list"

text \<open>The spec calls Django's \<^verbatim>\<open>IntegrityError\<close> a constraint violation.\<close>

abbreviation ConstraintViolation :: error where
  "ConstraintViolation \<equiv> IntegrityError"

definition fresh_pk :: "nat list \<Rightarrow> nat" where
  "fresh_pk pks = Suc (fold max pks 0)"

subsection \<open>Construction and saving\<close>

text \<open>
  \<^verbatim>\<open>User(...)\<close>: a field that is not given takes its declared default; \<^verbatim>\<open>role\<close> declares
  \<^verbatim>\<open>default=SERF\<close>. The role argument is \<open>None\<close> when the caller does not pass one.
\<close>

definition User_init :: "nat \<Rightarrow> string option \<Rightarrow> string \<Rightarrow> string option \<Rightarrow> string \<Rightarrow> User" where
  "User_init pk role nickname avatar bio =
     \<lparr>user_pk = pk,
      user_role = (case role of None \<Rightarrow> SERF | Some r \<Rightarrow> r),
      user_nickname = nickname,
      user_avatar = avatar,
      user_bio = bio\<rparr>"

text \<open>
  \<^verbatim>\<open>Like.objects.create(user=u, content_object=t)\<close>: the generic foreign key stores the
  target's content type and primary key; \<^verbatim>\<open>created_at\<close> is set by \<^verbatim>\<open>auto_now_add\<close>. The
  insert checks the foreign key to the user and the unique constraint. Nothing checks that
  the target exists.
\<close>

definition Like_create :: "db \<Rightarrow> nat \<Rightarrow> nat \<Rightarrow> ContentType \<Rightarrow> nat \<Rightarrow> error + db" where
  "Like_create d now u ct oid =
     (let row = \<lparr>like_pk = fresh_pk (map like_pk (app_like d)), like_user = u,
                 like_created_at = now, like_content_type = ct, like_object_id = oid\<rparr>
      in if u \<notin> set (map user_pk (app_user d)) then Inl IntegrityError
         else if unique_user_like row \<in> set (map unique_user_like (app_like d))
         then Inl IntegrityError
         else Inr (d\<lparr>app_like := app_like d @ [row]\<rparr>))"

text \<open>
  \<^verbatim>\<open>Model.save\<close> for a Media object, on SQLite, the database of a default Django project.
  \<^verbatim>\<open>size_bytes\<close>, \<^verbatim>\<open>object_id\<close> and \<^verbatim>\<open>uploader_object_id\<close> are
  \<^verbatim>\<open>PositiveBigIntegerField\<close> columns: a value above \<^verbatim>\<open>2**63 - 1\<close> does not fit the 64-bit
  integer of the database and binding it raises \<^verbatim>\<open>OverflowError\<close>, before the statement
  runs. (Values below zero are excluded by the type \<open>nat\<close>.) \<^verbatim>\<open>size_bytes\<close> is a
  \<^verbatim>\<open>NOT NULL\<close> column. An object without a primary key, or whose primary key is not in the
  table, is inserted (and \<^verbatim>\<open>uploaded_at\<close> is set then), otherwise its row is updated. The
  two content-type columns are foreign keys to rows that exist; nothing relates the two
  object-id columns to any table.
\<close>

definition PositiveBigIntegerField_max :: nat where
  "PositiveBigIntegerField_max = 9223372036854775807"

definition stored_pks :: "Media list \<Rightarrow> nat list" where
  "stored_pks rows = concat (map (\<lambda>m. case media_pk m of None \<Rightarrow> [] | Some k \<Rightarrow> [k]) rows)"

definition Model_save :: "db \<Rightarrow> nat \<Rightarrow> Media \<Rightarrow> error + (db \<times> Media)" where
  "Model_save d now self =
     (if (case media_size_bytes self of None \<Rightarrow> False
          | Some n \<Rightarrow> PositiveBigIntegerField_max < n)
         \<or> PositiveBigIntegerField_max < media_object_id self
         \<or> PositiveBigIntegerField_max < media_uploader_object_id self
      then Inl OverflowError
      else
        (case media_size_bytes self of
           None \<Rightarrow> Inl IntegrityError
         | Some _ \<Rightarrow>
             (case media_pk self of
                None \<Rightarrow>
                  (let row = self\<lparr>media_pk := Some (fresh_pk (stored_pks (app_media d))),
                                 media_uploaded_at := now\<rparr>
                   in Inr (d\<lparr>app_media := app_media d @ [row]\<rparr>, row))
              | Some k \<Rightarrow>
                  (if Some k \<in> set (map media_pk (app_media d))
                   then Inr (d\<lparr>app_media := map (\<lambda>m. if media_pk m = Some k then self else m)
                                               (app_media d)\<rparr>,
                             self)
                   else (let row = self\<lparr>media_uploaded_at := now\<rparr>
                         in Inr (d\<lparr>app_media := app_media d @ [row]\<rparr>, row))))))"

text \<open>
  \<^verbatim>\<open>Media.save\<close>. Python's \<^verbatim>\<open>not self.size_bytes\<close> is true for \<^verbatim>\<open>None\<close> and for \<^verbatim>\<open>0\<close>.
  \<^verbatim>\<open>self.file.size\<close> is read only when the condition holds, and the exception it may raise
  leaves the method.
\<close>

definition py_not :: "nat option \<Rightarrow> bool" where
  "py_not v = (case v of None \<Rightarrow> True | Some n \<Rightarrow> n = 0)"

definition FieldFile_bool :: "FieldFile \<Rightarrow> bool" where
  "FieldFile_bool f \<longleftrightarrow> file_name f \<noteq> []"

definition Media_save :: "db \<Rightarrow> nat \<Rightarrow> Media \<Rightarrow> error + (db \<times> Media)" where
  "Media_save d now self =
     (if py_not (media_size_bytes self) \<and> FieldFile_bool (media_file self)
      then (case file_size (media_file self) of
              None \<Rightarrow> Inl FileNotFoundError
            | Some n \<Rightarrow> Model_save d now (self\<lparr>media_size_bytes := Some n\<rparr>))
      else Model_save d now self)"

subsection \<open>Deletion\<close>

text \<open>
  \<open>hits policy f ids v\<close>: the foreign key \<open>f\<close> is declared with \<open>policy\<close> and its value
  \<open>v\<close> in some row points at one of the objects \<open>ids\<close> that are being deleted.
  \<open>bulk_related gr ct ids r\<close>: the row \<open>r\<close> points, through the two fields of the generic
  relation \<open>gr\<close>, at one of the objects \<open>ids\<close> of the model \<open>ct\<close>.
\<close>

definition hits :: "on_delete \<Rightarrow> ForeignKey \<Rightarrow> nat list \<Rightarrow> nat option \<Rightarrow> bool" where
  "hits policy f ids v \<longleftrightarrow>
     on_delete f = policy \<and> (case v of None \<Rightarrow> False | Some i \<Rightarrow> i \<in> set ids)"

definition bulk_related :: "'r GenericRelation \<Rightarrow> ContentType \<Rightarrow> nat list \<Rightarrow> 'r \<Rightarrow> bool" where
  "bulk_related gr ct ids r \<longleftrightarrow> content_type_field gr r = ct \<and> object_id_field gr r \<in> set ids"

text \<open>
  The objects being deleted, by model: \<open>us\<close> users, \<open>rs\<close> block reasons, \<open>ps\<close> posts,
  \<open>cs\<close> comments. \<open>pks_of\<close> picks the list a foreign key points into.
\<close>

definition pks_of :: "nat list \<Rightarrow> nat list \<Rightarrow> nat list \<Rightarrow> nat list \<Rightarrow> ContentType \<Rightarrow> nat list" where
  "pks_of us rs ps cs ct =
     (case ct of CT_User \<Rightarrow> us | CT_BlockReason \<Rightarrow> rs | CT_Post \<Rightarrow> ps | CT_Comment \<Rightarrow> cs
      | CT_Media \<Rightarrow> [] | CT_Like \<Rightarrow> [])"

definition Post_fk_hit :: "on_delete \<Rightarrow> (ContentType \<Rightarrow> nat list) \<Rightarrow> Post \<Rightarrow> bool" where
  "Post_fk_hit policy del p \<longleftrightarrow>
     hits policy Post_author (del (to_model Post_author)) (Some (post_author p))
     \<or> hits policy Post_hidden_reason (del (to_model Post_hidden_reason)) (post_hidden_reason p)
     \<or> hits policy Post_hidden_by (del (to_model Post_hidden_by)) (post_hidden_by p)"

definition Comment_fk_hit :: "on_delete \<Rightarrow> (ContentType \<Rightarrow> nat list) \<Rightarrow> Comment \<Rightarrow> bool" where
  "Comment_fk_hit policy del c \<longleftrightarrow>
     hits policy Comment_post (del (to_model Comment_post)) (Some (comment_post c))
     \<or> hits policy Comment_author (del (to_model Comment_author)) (Some (comment_author c))
     \<or> hits policy Comment_hidden_reason (del (to_model Comment_hidden_reason)) (comment_hidden_reason c)
     \<or> hits policy Comment_hidden_by (del (to_model Comment_hidden_by)) (comment_hidden_by c)"

definition Like_fk_hit :: "on_delete \<Rightarrow> (ContentType \<Rightarrow> nat list) \<Rightarrow> Like \<Rightarrow> bool" where
  "Like_fk_hit policy del l \<longleftrightarrow>
     hits policy Like_user (del (to_model Like_user)) (Some (like_user l))"

definition Post_set_null :: "(ContentType \<Rightarrow> nat list) \<Rightarrow> Post \<Rightarrow> Post" where
  "Post_set_null del p =
     p\<lparr>post_hidden_reason :=
         (if hits SET_NULL Post_hidden_reason (del (to_model Post_hidden_reason)) (post_hidden_reason p)
          then None else post_hidden_reason p),
       post_hidden_by :=
         (if hits SET_NULL Post_hidden_by (del (to_model Post_hidden_by)) (post_hidden_by p)
          then None else post_hidden_by p)\<rparr>"

definition Comment_set_null :: "(ContentType \<Rightarrow> nat list) \<Rightarrow> Comment \<Rightarrow> Comment" where
  "Comment_set_null del c =
     c\<lparr>comment_hidden_reason :=
         (if hits SET_NULL Comment_hidden_reason (del (to_model Comment_hidden_reason)) (comment_hidden_reason c)
          then None else comment_hidden_reason c),
       comment_hidden_by :=
         (if hits SET_NULL Comment_hidden_by (del (to_model Comment_hidden_by)) (comment_hidden_by c)
          then None else comment_hidden_by c)\<rparr>"

text \<open>
  The collector, for this schema. It starts from the objects passed to it, whether or not
  their rows exist, and gathers primary keys: of the posts that cascade from the users and
  block reasons, then of the comments that cascade from those and from the posts, then of
  the likes and media that cascade from all of them through a foreign key or a generic
  relation. A \<^verbatim>\<open>PROTECT\<close> foreign key that points at a collected object raises
  \<^verbatim>\<open>ProtectedError\<close> and nothing is deleted. Otherwise the \<^verbatim>\<open>SET_NULL\<close> updates are made
  and the rows with a collected primary key are removed from each table.
\<close>

definition delete_objs :: "db \<Rightarrow> nat list \<Rightarrow> nat list \<Rightarrow> nat list \<Rightarrow> nat list \<Rightarrow> error + db" where
  "delete_objs d us rs ps cs =
     (let ps' = ps @ map post_pk (filter (Post_fk_hit CASCADE (pks_of us rs [] [])) (app_post d));
          cs' = cs @ map comment_pk
                       (filter (Comment_fk_hit CASCADE (pks_of us rs ps' [])) (app_comment d));
          ls' = map like_pk
                  (filter (\<lambda>l. Like_fk_hit CASCADE (pks_of us rs ps' cs') l
                               \<or> bulk_related Post_likes CT_Post ps' l
                               \<or> bulk_related Comment_likes CT_Comment cs' l)
                     (app_like d));
          ms' = map media_pk
                  (filter (\<lambda>m. bulk_related User_uploads CT_User us m
                               \<or> bulk_related Post_media_items CT_Post ps' m
                               \<or> bulk_related Comment_media_items CT_Comment cs' m)
                     (app_media d))
      in if (\<exists>p \<in> set (app_post d). Post_fk_hit PROTECT (pks_of us rs [] []) p)
            \<or> (\<exists>c \<in> set (app_comment d). Comment_fk_hit PROTECT (pks_of us rs ps' []) c)
            \<or> (\<exists>l \<in> set (app_like d). Like_fk_hit PROTECT (pks_of us rs ps' cs') l)
         then Inl ProtectedError
         else Inr \<lparr>app_user = filter (\<lambda>u. user_pk u \<notin> set us) (app_user d),
                   app_blockreason = filter (\<lambda>b. reason_pk b \<notin> set rs) (app_blockreason d),
                   app_post = map (Post_set_null (pks_of us rs [] []))
                                (filter (\<lambda>p. post_pk p \<notin> set ps') (app_post d)),
                   app_comment = map (Comment_set_null (pks_of us rs ps' []))
                                   (filter (\<lambda>c. comment_pk c \<notin> set cs') (app_comment d)),
                   app_media = filter (\<lambda>m. media_pk m \<notin> set ms') (app_media d),
                   app_like = filter (\<lambda>l. like_pk l \<notin> set ls') (app_like d)\<rparr>)"

definition User_delete :: "db \<Rightarrow> nat \<Rightarrow> error + db" where
  "User_delete d u = delete_objs d [u] [] [] []"

definition BlockReason_delete :: "db \<Rightarrow> nat \<Rightarrow> error + db" where
  "BlockReason_delete d r = delete_objs d [] [r] [] []"

definition Post_delete :: "db \<Rightarrow> nat \<Rightarrow> error + db" where
  "Post_delete d p = delete_objs d [] [] [p] []"

definition Comment_delete :: "db \<Rightarrow> nat \<Rightarrow> error + db" where
  "Comment_delete d c = delete_objs d [] [] [] [c]"

subsection \<open>An example database\<close>

text \<open>
  Three users, of whom carol is an administrator; one block reason; two posts, the first
  hidden by carol as spam; a comment on each post; three media items and three likes.
\<close>

definition example_db :: db where
  "example_db =
     \<lparr>app_user = [User_init 1 None ''alice'' None [], User_init 2 None ''bob'' None [],
                  User_init 3 (Some ADMINISTRATOR) ''carol'' None []],
      app_blockreason = [\<lparr>reason_pk = 1, reason_code = ''SPAM'', reason_description = ''Unsolicited''\<rparr>],
      app_post =
        [\<lparr>post_pk = 1, post_author = 1, post_text = ''P1'', post_created_at = 10,
          post_is_hidden = True, post_hidden_reason = Some 1, post_hidden_by = Some 3,
          post_hidden_at = Some 20\<rparr>,
         \<lparr>post_pk = 2, post_author = 2, post_text = ''P2'', post_created_at = 11,
          post_is_hidden = False, post_hidden_reason = None, post_hidden_by = None,
          post_hidden_at = None\<rparr>],
      app_comment =
        [\<lparr>comment_pk = 1, comment_post = 1, comment_author = 2, comment_text = ''c1'',
          comment_created_at = 12, comment_is_hidden = False, comment_hidden_reason = None,
          comment_hidden_by = None, comment_hidden_at = None\<rparr>,
         \<lparr>comment_pk = 2, comment_post = 2, comment_author = 1, comment_text = ''c2'',
          comment_created_at = 13, comment_is_hidden = True, comment_hidden_reason = Some 1,
          comment_hidden_by = Some 3, comment_hidden_at = Some 21\<rparr>],
      app_media =
        [\<lparr>media_pk = Some 1, media_file = \<lparr>file_name = ''uploads/a.png'', file_size = Some 100\<rparr>,
          media_size_bytes = Some 100, media_uploaded_at = 14, media_content_type = CT_Post,
          media_object_id = 1, media_uploader_content_type = CT_User,
          media_uploader_object_id = 1\<rparr>,
         \<lparr>media_pk = Some 2, media_file = \<lparr>file_name = ''uploads/b.png'', file_size = Some 200\<rparr>,
          media_size_bytes = Some 200, media_uploaded_at = 15, media_content_type = CT_Comment,
          media_object_id = 1, media_uploader_content_type = CT_User,
          media_uploader_object_id = 2\<rparr>,
         \<lparr>media_pk = Some 3, media_file = \<lparr>file_name = ''uploads/c.png'', file_size = Some 300\<rparr>,
          media_size_bytes = Some 300, media_uploaded_at = 16, media_content_type = CT_Comment,
          media_object_id = 2, media_uploader_content_type = CT_User,
          media_uploader_object_id = 1\<rparr>],
      app_like =
        [\<lparr>like_pk = 1, like_user = 2, like_created_at = 17, like_content_type = CT_Post,
          like_object_id = 1\<rparr>,
         \<lparr>like_pk = 2, like_user = 1, like_created_at = 18, like_content_type = CT_Comment,
          like_object_id = 1\<rparr>,
         \<lparr>like_pk = 3, like_user = 3, like_created_at = 19, like_content_type = CT_Comment,
          like_object_id = 2\<rparr>]\<rparr>"

text \<open>The database before anything is stored.\<close>

definition empty_db :: db where
  "empty_db = \<lparr>app_user = [], app_blockreason = [], app_post = [], app_comment = [],
               app_media = [], app_like = []\<rparr>"

section \<open>Properties\<close>

text \<open>
  C9. The dummypage handler produces its fixed-text response only when the request method
  is GET; for every other method it returns \<^verbatim>\<open>None\<close>, that is, no response object.
\<close>

theorem dummypage_get_only:
  "(method request = ''GET'' \<longrightarrow>
      dummypage request = Some \<lparr>content = ''No content here, sorry!'', status_code = 200\<rparr>)
   \<and> (method request \<noteq> ''GET'' \<longrightarrow> dummypage request = None)"
  by (simp add: dummypage_def HttpResponse_def)

theorem dummypage_get_only_witness:
  "dummypage \<lparr>method = ''GET'', GET = []\<rparr>
     = Some \<lparr>content = ''No content here, sorry!'', status_code = 200\<rparr>
   \<and> dummypage \<lparr>method = ''POST'', GET = []\<rparr> = None"
  using dummypage_get_only [of "\<lparr>method = ''GET'', GET = []\<rparr>"]
        dummypage_get_only [of "\<lparr>method = ''POST'', GET = []\<rparr>"]
  by simp


subsection \<open>The handlers\<close>

text \<open>Quotient and remainder of a time of day, split into hours, minutes and seconds.\<close>

lemma divmod_unique:
  fixes a b q r :: int
  assumes "a = b * q + r" "0 \<le> r" "r < b"
  shows "a div b = q \<and> a mod b = r"
  using assms by (simp add: int_div_pos_eq int_mod_pos_eq)

lemma hms_split:
  fixes h m s :: int
  assumes "0 \<le> m" "m < 60" "0 \<le> s" "s < 60"
  shows "(h * 3600 + m * 60 + s) div 3600 = h" "(h * 3600 + m * 60 + s) mod 3600 = m * 60 + s"
        "(m * 60 + s) div 60 = m" "(m * 60 + s) mod 60 = s"
  using assms divmod_unique[of "h * 3600 + m * 60 + s" 3600 h "m * 60 + s"]
     divmod_unique[of "m * 60 + s" 60 m s] by auto

lemma datetime_sub_five_hours:
  assumes v: "valid_datetime utc_now" and r: "2 \<le> ordinal utc_now \<or> 5 \<le> hour utc_now"
  shows "datetime_sub utc_now (timedelta_hours 5) =
     Inr \<lparr>ordinal = (if 5 \<le> hour utc_now then ordinal utc_now else ordinal utc_now - 1),
          hour = (hour utc_now + 19) mod 24, minute = minute utc_now, second = second utc_now,
          microsecond = microsecond utc_now\<rparr>"
proof -
  define h m s where "h = hour utc_now" and "m = minute utc_now" and "s = second utc_now"
  have b: "0 \<le> h" "h < 24" "0 \<le> m" "m < 60" "0 \<le> s" "s < 60"
    using v by (simp_all add: valid_datetime_def h_def m_def s_def)
  have neg: "timedelta_neg (timedelta_hours 5) = \<lparr>days = -1, seconds = 68400, microseconds = 0\<rparr>"
    by (simp add: timedelta_neg_def timedelta_hours_def timedelta_def)
  have us: "microsecond utc_now div 1000000 = 0" "microsecond utc_now mod 1000000 = microsecond utc_now"
    using v by (simp_all add: valid_datetime_def)
  have "0 \<le> h * 3600 + m * 60 + s" "h * 3600 + m * 60 + s < 86400"
    using b by auto
  then have day: "(h * 3600 + m * 60 + s) div 86400 = 0"
                 "(h * 3600 + m * 60 + s) mod 86400 = h * 3600 + m * 60 + s"
    by simp_all
  have now: "timedelta (ordinal utc_now) (h * 3600 + m * 60 + s) (microsecond utc_now)
               = \<lparr>days = ordinal utc_now, seconds = h * 3600 + m * 60 + s,
                  microseconds = microsecond utc_now\<rparr>"
    by (simp add: timedelta_def us day)
  have sum: "timedelta_add
               (timedelta (ordinal utc_now) (hour utc_now * 3600 + minute utc_now * 60 + second utc_now)
                  (microsecond utc_now))
               \<lparr>days = -1, seconds = 68400, microseconds = 0\<rparr>
             = timedelta (ordinal utc_now - 1) (h * 3600 + m * 60 + s + 68400) (microsecond utc_now)"
    unfolding h_def[symmetric] m_def[symmetric] s_def[symmetric] now
    by (simp add: timedelta_add_def)
  show ?thesis
  proof (cases "5 \<le> h")
    case True
    define k where "k = h - 5"
    have e: "h * 3600 + m * 60 + s + 68400 = 86400 * 1 + (k * 3600 + m * 60 + s)"
      by (simp add: k_def)
    have "0 \<le> k * 3600 + m * 60 + s" "k * 3600 + m * 60 + s < 86400"
      using b True by (auto simp: k_def)
    from divmod_unique[OF e this]
    have d: "(h * 3600 + m * 60 + s + 68400) div 86400 = 1"
            "(h * 3600 + m * 60 + s + 68400) mod 86400 = k * 3600 + m * 60 + s" by auto
    have hh: "(h + 19) mod 24 = k"
      using divmod_unique[of "h + 19" 24 1 "h - 5"] b True by (auto simp: k_def)
    have delta: "timedelta (ordinal utc_now - 1) (h * 3600 + m * 60 + s + 68400) (microsecond utc_now)
                   = \<lparr>days = ordinal utc_now, seconds = k * 3600 + m * 60 + s,
                      microseconds = microsecond utc_now\<rparr>"
      by (simp add: timedelta_def us d)
    show ?thesis using v True b
      unfolding datetime_sub_def neg datetime_add_def sum delta Let_def
      by (simp add: hms_split hh h_def[symmetric] m_def[symmetric] s_def[symmetric] valid_datetime_def)
  next
    case False
    define k where "k = h + 19"
    have e: "h * 3600 + m * 60 + s + 68400 = 86400 * 0 + (k * 3600 + m * 60 + s)"
      by (simp add: k_def)
    have "0 \<le> k * 3600 + m * 60 + s" "k * 3600 + m * 60 + s < 86400"
      using b False by (auto simp: k_def)
    from divmod_unique[OF e this]
    have d: "(h * 3600 + m * 60 + s + 68400) div 86400 = 0"
            "(h * 3600 + m * 60 + s + 68400) mod 86400 = k * 3600 + m * 60 + s" by auto
    have hh: "(h + 19) mod 24 = k"
      using b False by (simp add: k_def)
    have delta: "timedelta (ordinal utc_now - 1) (h * 3600 + m * 60 + s + 68400) (microsecond utc_now)
                   = \<lparr>days = ordinal utc_now - 1, seconds = k * 3600 + m * 60 + s,
                      microseconds = microsecond utc_now\<rparr>"
      by (simp add: timedelta_def us d)
    show ?thesis using v False b r
      unfolding datetime_sub_def neg datetime_add_def sum delta Let_def
      by (simp add: hms_split hh h_def[symmetric] m_def[symmetric] s_def[symmetric] valid_datetime_def)
  qed
qed

text \<open>
  C8. For every GET request to /time, the response body is the current time minus 5 hours,
  formatted as HH:MM. The current time is the reading \<open>utc_now\<close> of the UTC clock, a valid
  \<^verbatim>\<open>datetime\<close> at least five hours after \<^verbatim>\<open>datetime.min\<close> (before that the subtraction
  raises \<^verbatim>\<open>OverflowError\<close>). The handler answers with status 200, and its body is the
  zero-padded hour and minute of the valid \<^verbatim>\<open>datetime\<close> \<open>t\<close> that lies exactly five hours
  before \<open>utc_now\<close>; the hour is the clock's hour plus 19 modulo 24 and the minute is the
  clock's minute. The handler does not look at the request.
\<close>

theorem current_time_minus_five_hours:
  assumes "valid_datetime utc_now" "2 \<le> ordinal utc_now \<or> 5 \<le> hour utc_now"
  shows "\<exists>t. current_time utc_now = Inr \<lparr>content = two_digits (hour t) @ '':'' @ two_digits (minute t), status_code = 200\<rparr>
     \<and> valid_datetime t \<and> instant t = instant utc_now - 5 * 3600 * 1000000
     \<and> hour t = (hour utc_now + 19) mod 24 \<and> minute t = minute utc_now"
proof -
  let ?t = "\<lparr>ordinal = (if 5 \<le> hour utc_now then ordinal utc_now else ordinal utc_now - 1),
          hour = (hour utc_now + 19) mod 24, minute = minute utc_now, second = second utc_now,
          microsecond = microsecond utc_now\<rparr>"
  have 1: "current_time utc_now = Inr (HttpResponse (strftime_HM ?t))"
    by (simp add: current_time_def datetime_sub_five_hours[OF assms])
  have hh: "(hour utc_now + 19) mod 24 = (if 5 \<le> hour utc_now then hour utc_now - 5 else hour utc_now + 19)"
    using divmod_unique[of "hour utc_now + 19" 24 1 "hour utc_now - 5"] assms(1)
    by (auto simp: valid_datetime_def)
  have 2: "valid_datetime ?t" using assms by (auto simp: valid_datetime_def)
  have 3: "instant ?t = instant utc_now - 5 * 3600 * 1000000"
    unfolding instant_def by (simp add: hh)
  show ?thesis
    apply (rule exI[of _ ?t])
    using 1 2 3 by (simp add: HttpResponse_def strftime_HM_def)
qed

theorem current_time_minus_five_hours_witness:
  "valid_datetime \<lparr>ordinal = 739000, hour = 3, minute = 7, second = 59, microsecond = 5\<rparr>
   \<and> current_time \<lparr>ordinal = 739000, hour = 3, minute = 7, second = 59, microsecond = 5\<rparr>
       = Inr \<lparr>content = ''22:07'', status_code = 200\<rparr>"
proof -
  let ?now = "\<lparr>ordinal = 739000, hour = 3, minute = 7, second = 59, microsecond = 5\<rparr>"
  have v: "valid_datetime ?now"
    by (simp add: valid_datetime_def MAXORDINAL_def)
  have r: "2 \<le> ordinal ?now \<or> 5 \<le> hour ?now"
    by simp
  from current_time_minus_five_hours [OF v r]
  have "current_time ?now = Inr \<lparr>content = ''22:07'', status_code = 200\<rparr>"
    by (auto simp: two_digits_def digit_def)
  with v show ?thesis
    by simp
qed

text \<open>
  C7. For a GET request to /sum, each of the parameters n1 and n2 defaults to 0 when absent;
  when both are parseable the body is the text of their sum; when a supplied parameter is
  not parseable the body is \<^verbatim>\<open>Error: \<close> followed by the parser's message. The status is 200
  in every case. A parameter supplied several times counts with its last value; n2 is only
  looked at when n1 went through.
\<close>

theorem add_numbers_spec:
  fixes F :: "'f float_ops"
  shows
  "((QueryDict_getitem (GET request) ''n1'' = None \<and> a = float_of_int F 0
       \<or> (\<exists>s. QueryDict_getitem (GET request) ''n1'' = Some s \<and> float_of_str F s = Inr a))
    \<and> (QueryDict_getitem (GET request) ''n2'' = None \<and> b = float_of_int F 0
       \<or> (\<exists>s. QueryDict_getitem (GET request) ''n2'' = Some s \<and> float_of_str F s = Inr b))
    \<longrightarrow> add_numbers F request = \<lparr>content = float_str F (float_add F a b), status_code = 200\<rparr>)
   \<and> (QueryDict_getitem (GET request) ''n1'' = Some s1 \<and> float_of_str F s1 = Inl msg
    \<longrightarrow> add_numbers F request = \<lparr>content = ''Error: '' @ msg, status_code = 200\<rparr>)
   \<and> ((QueryDict_getitem (GET request) ''n1'' = None
       \<or> (\<exists>s c. QueryDict_getitem (GET request) ''n1'' = Some s \<and> float_of_str F s = Inr c))
      \<and> QueryDict_getitem (GET request) ''n2'' = Some s2 \<and> float_of_str F s2 = Inl msg
    \<longrightarrow> add_numbers F request = \<lparr>content = ''Error: '' @ msg, status_code = 200\<rparr>)"
  by (auto simp: add_numbers_def QueryDict_get_def py_float_def HttpResponse_def)

theorem add_numbers_spec_witness:
  "add_numbers decimal_ops \<lparr>method = ''GET'', GET = [(''n1'', ''12''), (''n2'', ''30'')]\<rparr>
     = \<lparr>content = ''42.0'', status_code = 200\<rparr>
   \<and> add_numbers decimal_ops \<lparr>method = ''GET'', GET = [(''n2'', ''30'')]\<rparr>
     = \<lparr>content = ''30.0'', status_code = 200\<rparr>
   \<and> add_numbers decimal_ops \<lparr>method = ''GET'', GET = [(''n1'', ''abc''), (''n2'', ''30'')]\<rparr>
     = \<lparr>content = ''Error: could not convert string to float: abc'', status_code = 200\<rparr>
   \<and> add_numbers decimal_ops \<lparr>method = ''GET'', GET = [(''n2'', ''abc'')]\<rparr>
     = \<lparr>content = ''Error: could not convert string to float: abc'', status_code = 200\<rparr>"
  using
    add_numbers_spec [of "\<lparr>method = ''GET'', GET = [(''n1'', ''12''), (''n2'', ''30'')]\<rparr>" 12 decimal_ops 30]
    add_numbers_spec [of "\<lparr>method = ''GET'', GET = [(''n2'', ''30'')]\<rparr>" 0 decimal_ops 30]
    add_numbers_spec [of "\<lparr>method = ''GET'', GET = [(''n1'', ''abc''), (''n2'', ''30'')]\<rparr>" _ decimal_ops _
       "''abc''" "''could not convert string to float: abc''"]
    add_numbers_spec [of "\<lparr>method = ''GET'', GET = [(''n2'', ''abc'')]\<rparr>" _ decimal_ops _ _
       "''could not convert string to float: abc''" "''abc''"]
  by (simp add: QueryDict_getitem_def decimal_ops_def show_nat.simps digit_def)


subsection \<open>Deletion\<close>

text \<open>What the collector's tests come to under the declared \<^verbatim>\<open>on_delete\<close> policies.\<close>

lemmas schema_defs =
  Post_author_def Post_hidden_reason_def Post_hidden_by_def Comment_post_def
  Comment_author_def Comment_hidden_reason_def Comment_hidden_by_def Like_user_def
  User_uploads_def Post_media_items_def Post_likes_def Comment_media_items_def
  Comment_likes_def

lemmas collector_defs =
  hits_def bulk_related_def pks_of_def Post_fk_hit_def Comment_fk_hit_def Like_fk_hit_def
  Post_set_null_def Comment_set_null_def

lemma no_protect:
  "\<not> Post_fk_hit PROTECT del p" "\<not> Comment_fk_hit PROTECT del c" "\<not> Like_fk_hit PROTECT del l"
  by (simp_all add: schema_defs collector_defs)

lemma Post_cascade: "Post_fk_hit CASCADE (pks_of us rs ps cs) p \<longleftrightarrow> post_author p \<in> set us"
  by (simp add: schema_defs collector_defs)

lemma Comment_cascade:
  "Comment_fk_hit CASCADE (pks_of us rs ps cs) c \<longleftrightarrow>
     comment_post c \<in> set ps \<or> comment_author c \<in> set us"
  by (simp add: schema_defs collector_defs)

lemma Like_cascade: "Like_fk_hit CASCADE (pks_of us rs ps cs) l \<longleftrightarrow> like_user l \<in> set us"
  by (simp add: schema_defs collector_defs)

lemma Post_set_null_none: "Post_set_null (pks_of [] [] ps cs) = id"
proof
  fix p show "Post_set_null (pks_of [] [] ps cs) p = id p"
    by (cases "post_hidden_reason p"; cases "post_hidden_by p")
       (simp_all add: schema_defs collector_defs)
qed

lemma Comment_set_null_none: "Comment_set_null (pks_of [] [] ps cs) = id"
proof
  fix c show "Comment_set_null (pks_of [] [] ps cs) c = id c"
    by (cases "comment_hidden_reason c"; cases "comment_hidden_by c")
       (simp_all add: schema_defs collector_defs)
qed

lemma filter_by_pk:
  assumes "distinct (map pk xs)"
  shows "filter (\<lambda>x. pk x \<notin> set (map pk (filter P xs))) xs = filter (\<lambda>x. \<not> P x) xs"
proof (rule filter_cong[OF refl])
  fix x assume x: "x \<in> set xs"
  from assms have "inj_on pk (set xs)" by (simp add: distinct_map)
  with x show "(pk x \<notin> set (map pk (filter P xs))) = (\<not> P x)"
    by (auto dest: inj_onD)
qed

lemma Post_set_null_reason:
  "Post_set_null (pks_of [] [r] [] []) p =
     (if post_hidden_reason p = Some r then p\<lparr>post_hidden_reason := None\<rparr> else p)"
  by (cases "post_hidden_reason p"; cases "post_hidden_by p") (simp_all add: schema_defs collector_defs)

lemma Comment_set_null_reason:
  "Comment_set_null (pks_of [] [r] ps []) c =
     (if comment_hidden_reason c = Some r then c\<lparr>comment_hidden_reason := None\<rparr> else c)"
  by (cases "comment_hidden_reason c"; cases "comment_hidden_by c") (simp_all add: schema_defs collector_defs)

lemma Post_set_null_user:
  "Post_set_null (pks_of [u] [] ps cs) =
     (\<lambda>p. if post_hidden_by p = Some u then p\<lparr>post_hidden_by := None\<rparr> else p)"
proof
  fix p
  show "Post_set_null (pks_of [u] [] ps cs) p =
          (if post_hidden_by p = Some u then p\<lparr>post_hidden_by := None\<rparr> else p)"
    by (cases "post_hidden_reason p"; cases "post_hidden_by p")
       (simp_all add: schema_defs collector_defs)
qed

lemma Comment_set_null_user:
  "Comment_set_null (pks_of [u] [] ps cs) =
     (\<lambda>c. if comment_hidden_by c = Some u then c\<lparr>comment_hidden_by := None\<rparr> else c)"
proof
  fix c
  show "Comment_set_null (pks_of [u] [] ps cs) c =
          (if comment_hidden_by c = Some u then c\<lparr>comment_hidden_by := None\<rparr> else c)"
    by (cases "comment_hidden_reason c"; cases "comment_hidden_by c")
       (simp_all add: schema_defs collector_defs)
qed

lemma User_delete_eq:
  "User_delete d u =
     (let ps' = map post_pk (filter (\<lambda>p. post_author p = u) (app_post d));
          cs' = map comment_pk
                  (filter (\<lambda>c. comment_post c \<in> set ps' \<or> comment_author c = u) (app_comment d))
      in Inr \<lparr>app_user = filter (\<lambda>x. user_pk x \<noteq> u) (app_user d),
              app_blockreason = app_blockreason d,
              app_post =
                map (\<lambda>p. if post_hidden_by p = Some u then p\<lparr>post_hidden_by := None\<rparr> else p)
                  (filter (\<lambda>p. post_pk p \<notin> set ps') (app_post d)),
              app_comment =
                map (\<lambda>c. if comment_hidden_by c = Some u then c\<lparr>comment_hidden_by := None\<rparr> else c)
                  (filter (\<lambda>c. comment_pk c \<notin> set cs') (app_comment d)),
              app_media =
                filter (\<lambda>m. media_pk m \<notin> set (map media_pk (filter
                    (\<lambda>m. media_uploader_content_type m = CT_User \<and> media_uploader_object_id m = u
                       \<or> media_content_type m = CT_Post \<and> media_object_id m \<in> set ps'
                       \<or> media_content_type m = CT_Comment \<and> media_object_id m \<in> set cs')
                    (app_media d)))) (app_media d),
              app_like =
                filter (\<lambda>l. like_pk l \<notin> set (map like_pk (filter
                    (\<lambda>l. like_user l = u
                       \<or> like_content_type l = CT_Post \<and> like_object_id l \<in> set ps'
                       \<or> like_content_type l = CT_Comment \<and> like_object_id l \<in> set cs')
                    (app_like d)))) (app_like d)\<rparr>)"
  unfolding User_delete_def delete_objs_def Let_def
  by (simp add: no_protect Post_cascade Comment_cascade Like_cascade Post_set_null_user
        Comment_set_null_user bulk_related_def schema_defs)

lemma Post_delete_eq:
  "Post_delete d p =
     Inr \<lparr>app_user = app_user d,
          app_blockreason = app_blockreason d,
          app_post = filter (\<lambda>x. post_pk x \<noteq> p) (app_post d),
          app_comment =
            filter (\<lambda>c. comment_pk c \<notin> set (map comment_pk (filter (\<lambda>c. comment_post c = p) (app_comment d))))
              (app_comment d),
          app_media =
            filter (\<lambda>m. media_pk m \<notin> set (map media_pk (filter
                (\<lambda>m. media_content_type m = CT_Post \<and> media_object_id m = p
                   \<or> media_content_type m = CT_Comment
                     \<and> media_object_id m \<in> comment_pk ` {c \<in> set (app_comment d). comment_post c = p})
                (app_media d)))) (app_media d),
          app_like =
            filter (\<lambda>l. like_pk l \<notin> set (map like_pk (filter
                (\<lambda>l. like_content_type l = CT_Post \<and> like_object_id l = p
                   \<or> like_content_type l = CT_Comment
                     \<and> like_object_id l \<in> comment_pk ` {c \<in> set (app_comment d). comment_post c = p})
                (app_like d)))) (app_like d)\<rparr>"
  unfolding Post_delete_def delete_objs_def Let_def
  by (simp add: no_protect Post_cascade Comment_cascade Like_cascade Post_set_null_none
        Comment_set_null_none bulk_related_def schema_defs)



text \<open>
  C5. Deleting a BlockReason always succeeds, even while posts or comments reference it.
  Afterwards the posts and comments are the same rows in the same order, except that every
  row whose \<^verbatim>\<open>hidden_reason\<close> was the deleted reason has it set to null; \<^verbatim>\<open>is_hidden\<close> and
  every other field are as before. The other tables are unchanged, apart from the reason
  itself.
\<close>

theorem BlockReason_delete_sets_null:
  "\<exists>d'. BlockReason_delete d r = Inr d'
     \<and> app_post d' = map (\<lambda>p. if post_hidden_reason p = Some r
                               then p\<lparr>post_hidden_reason := None\<rparr> else p) (app_post d)
     \<and> app_comment d' = map (\<lambda>c. if comment_hidden_reason c = Some r
                                  then c\<lparr>comment_hidden_reason := None\<rparr> else c) (app_comment d)
     \<and> app_blockreason d' = filter (\<lambda>b. reason_pk b \<noteq> r) (app_blockreason d)
     \<and> app_user d' = app_user d \<and> app_media d' = app_media d \<and> app_like d' = app_like d"
proof -
  have no_post: "filter (Post_fk_hit CASCADE (pks_of [] [r] [] [])) (app_post d) = []"
    by (simp add: schema_defs collector_defs)
  have no_comment: "filter (Comment_fk_hit CASCADE (pks_of [] [r] [] [])) (app_comment d) = []"
    by (simp add: schema_defs collector_defs)
  have no_protect:
    "\<not> Post_fk_hit PROTECT del p" "\<not> Comment_fk_hit PROTECT del c" "\<not> Like_fk_hit PROTECT del l"
    for del p c l
    by (simp_all add: schema_defs collector_defs)
  have no_like: "\<not> Like_fk_hit CASCADE (pks_of [] [r] [] []) l" for l
    by (simp add: schema_defs collector_defs)
  have no_rel: "\<not> bulk_related gr ct [] x" for gr :: "'r GenericRelation" and ct x
    by (simp add: bulk_related_def)
  show ?thesis
    unfolding BlockReason_delete_def delete_objs_def Let_def
    by (simp add: no_post no_comment no_protect no_like no_rel
          Post_set_null_reason Comment_set_null_reason)
qed

theorem BlockReason_delete_sets_null_witness:
  "\<exists>d'. BlockReason_delete example_db 1 = Inr d'
     \<and> map post_is_hidden (app_post d') = [True, False]
     \<and> map post_hidden_reason (app_post d') = [None, None]
     \<and> map comment_is_hidden (app_comment d') = [False, True]
     \<and> map comment_hidden_reason (app_comment d') = [None, None]"
  using BlockReason_delete_sets_null [of example_db 1]
  by (auto simp: example_db_def)





text \<open>
  Where primary keys are unique in each table, these are the only rows that go: the tables
  after the deletion are the old ones without the post, its comments, and the media and
  likes attached to either.
\<close>

lemma Post_delete_exact:
  assumes "distinct (map comment_pk (app_comment d))"
      and "distinct (map media_pk (app_media d))"
      and "distinct (map like_pk (app_like d))"
  shows "Post_delete d p =
     Inr \<lparr>app_user = app_user d,
          app_blockreason = app_blockreason d,
          app_post = filter (\<lambda>x. post_pk x \<noteq> p) (app_post d),
          app_comment = filter (\<lambda>c. comment_post c \<noteq> p) (app_comment d),
          app_media =
            filter (\<lambda>m. \<not> (media_content_type m = CT_Post \<and> media_object_id m = p
                   \<or> media_content_type m = CT_Comment
                     \<and> media_object_id m \<in> comment_pk ` {c \<in> set (app_comment d). comment_post c = p}))
              (app_media d),
          app_like =
            filter (\<lambda>l. \<not> (like_content_type l = CT_Post \<and> like_object_id l = p
                   \<or> like_content_type l = CT_Comment
                     \<and> like_object_id l \<in> comment_pk ` {c \<in> set (app_comment d). comment_post c = p}))
              (app_like d)\<rparr>"
  unfolding Post_delete_eq
  by (simp only: filter_by_pk [OF assms(1)] filter_by_pk [OF assms(2)] filter_by_pk [OF assms(3)])

text \<open>
  C4. Deleting a User succeeds and removes the user and every post, comment and like whose
  author or user it is, and every media row whose uploader reference is that user: no such
  row is left afterwards. A surviving post or comment has the author it had before, so no
  owner reference was nulled; media rows and likes that survive are unchanged.
\<close>

theorem User_delete_cascades:
  "\<exists>d'. User_delete d u = Inr d'
     \<and> app_user d' = filter (\<lambda>x. user_pk x \<noteq> u) (app_user d)
     \<and> (\<forall>p \<in> set (app_post d'). post_author p \<noteq> u)
     \<and> (\<forall>c \<in> set (app_comment d'). comment_author c \<noteq> u)
     \<and> (\<forall>l \<in> set (app_like d'). like_user l \<noteq> u)
     \<and> (\<forall>m \<in> set (app_media d').
           (media_uploader_content_type m, media_uploader_object_id m) \<noteq> (CT_User, u))
     \<and> (\<forall>p' \<in> set (app_post d'). \<exists>p \<in> set (app_post d).
           post_pk p' = post_pk p \<and> post_author p' = post_author p)
     \<and> (\<forall>c' \<in> set (app_comment d'). \<exists>c \<in> set (app_comment d).
           comment_pk c' = comment_pk c \<and> comment_author c' = comment_author c)
     \<and> set (app_media d') \<subseteq> set (app_media d)
     \<and> set (app_like d') \<subseteq> set (app_like d)
     \<and> app_blockreason d' = app_blockreason d"
  unfolding User_delete_eq Let_def
  by (simp, intro conjI; fastforce)


theorem User_delete_cascades_witness:
  "\<exists>d'. User_delete example_db 1 = Inr d'
     \<and> user_pk ` set (app_user d') \<subseteq> {2, 3}
     \<and> post_pk ` set (app_post d') \<subseteq> {2}
     \<and> comment_pk ` set (app_comment d') \<subseteq> {1}
     \<and> media_pk ` set (app_media d') \<subseteq> {Some 2}
     \<and> like_pk ` set (app_like d') \<subseteq> {1, 3}"
proof -
  from User_delete_cascades [of example_db 1] obtain d' where
    d: "User_delete example_db 1 = Inr d'"
    and users: "app_user d' = filter (\<lambda>x. user_pk x \<noteq> 1) (app_user example_db)"
    and posts: "\<forall>p \<in> set (app_post d'). post_author p \<noteq> 1"
    and comments: "\<forall>c \<in> set (app_comment d'). comment_author c \<noteq> 1"
    and likes: "\<forall>l \<in> set (app_like d'). like_user l \<noteq> 1"
    and media: "\<forall>m \<in> set (app_media d').
           (media_uploader_content_type m, media_uploader_object_id m) \<noteq> (CT_User, 1)"
    and posts': "\<forall>p' \<in> set (app_post d'). \<exists>p \<in> set (app_post example_db).
           post_pk p' = post_pk p \<and> post_author p' = post_author p"
    and comments': "\<forall>c' \<in> set (app_comment d'). \<exists>c \<in> set (app_comment example_db).
           comment_pk c' = comment_pk c \<and> comment_author c' = comment_author c"
    and media': "set (app_media d') \<subseteq> set (app_media example_db)"
    and likes': "set (app_like d') \<subseteq> set (app_like example_db)"
    by blast
  have 1: "user_pk ` set (app_user d') \<subseteq> {2, 3}"
    unfolding users by (simp add: example_db_def User_init_def)
  have 2: "post_pk ` set (app_post d') \<subseteq> {2}"
    using posts posts' by (fastforce simp: example_db_def)
  have 3: "comment_pk ` set (app_comment d') \<subseteq> {1}"
    using comments comments' by (fastforce simp: example_db_def)
  have 4: "media_pk ` set (app_media d') \<subseteq> {Some 2}"
    using media media' by (fastforce simp: example_db_def)
  have 5: "like_pk ` set (app_like d') \<subseteq> {1, 3}"
    using likes likes' by (fastforce simp: example_db_def)
  from d 1 2 3 4 5 show ?thesis by blast
qed

subsection \<open>Construction and saving\<close>

text \<open>
  C10. A User constructed without a role has the role \<^verbatim>\<open>"serf"\<close>, which is not the
  administrator role; a constructed user has the administrator role only if that role was
  passed explicitly.
\<close>

theorem User_role_default:
  "user_role (User_init pk None nickname avatar bio) = ''serf''
   \<and> ''serf'' \<noteq> ADMINISTRATOR
   \<and> (user_role (User_init pk role nickname avatar bio) = ADMINISTRATOR
        \<longrightarrow> role = Some ADMINISTRATOR)"
  by (cases role) (auto simp: User_init_def SERF_def ADMINISTRATOR_def)

theorem User_role_default_witness:
  "user_role (User_init 3 (Some ''admin'') ''carol'' None []) = ADMINISTRATOR
   \<and> Some ''admin'' = Some ADMINISTRATOR
   \<and> user_role (User_init 1 None ''alice'' None []) = ''serf''"
  using User_role_default [of 3 "''carol''" None "[]" "Some ''admin''"]
        User_role_default [of 1 "''alice''" None "[]" None]
  by (simp add: ADMINISTRATOR_def User_init_def)

text \<open>
  \<^verbatim>\<open>Media.save\<close> captures the size of the file when \<^verbatim>\<open>size_bytes\<close> is unset and a file is
  present, and leaves a non-zero \<^verbatim>\<open>size_bytes\<close> alone whatever the file has become. A save
  that succeeds never stores a size other than one of these two.
\<close>

lemma Media_save_captures_size:
  assumes "media_size_bytes self = None" and "FieldFile_bool (media_file self)"
      and "Media_save d now self = Inr (d', row)"
  shows "media_size_bytes row = file_size (media_file self) \<and> media_size_bytes row \<noteq> None"
  using assms
  by (cases "media_pk self"; cases "file_size (media_file self)")
     (auto simp: Media_save_def Model_save_def py_not_def Let_def split: if_splits)

lemma Media_save_keeps_size:
  assumes "media_size_bytes self = Some n" and "0 < n"
      and "Media_save d now self = Inr (d', row)"
  shows "media_size_bytes row = Some n"
  using assms
  by (cases "media_pk self")
     (auto simp: Media_save_def Model_save_def py_not_def Let_def split: if_splits)

text \<open>
  C2. \<^verbatim>\<open>size_bytes\<close> is to be set once, at creation, and no later save is to change it even
  if the stored file changes. The guard of \<^verbatim>\<open>Media.save\<close> is \<^verbatim>\<open>not self.size_bytes\<close>, which
  is also true of a stored \<^verbatim>\<open>0\<close>. Run on an empty upload: the first save stores the row with
  \<^verbatim>\<open>size_bytes = 0\<close>; once the stored file has grown to 5 bytes, the next save of the same
  object rewrites the row with \<^verbatim>\<open>size_bytes = 5\<close>.
\<close>

theorem Media_save_recaptures_empty_file:
  "Media_save empty_db 30
     \<lparr>media_pk = None, media_file = \<lparr>file_name = ''uploads/note.txt'', file_size = Some 0\<rparr>,
      media_size_bytes = None, media_uploaded_at = 0, media_content_type = CT_Post,
      media_object_id = 1, media_uploader_content_type = CT_User,
      media_uploader_object_id = 1\<rparr>
   = Inr (empty_db\<lparr>app_media :=
            [\<lparr>media_pk = Some 1, media_file = \<lparr>file_name = ''uploads/note.txt'', file_size = Some 0\<rparr>,
              media_size_bytes = Some 0, media_uploaded_at = 30, media_content_type = CT_Post,
              media_object_id = 1, media_uploader_content_type = CT_User,
              media_uploader_object_id = 1\<rparr>]\<rparr>,
          \<lparr>media_pk = Some 1, media_file = \<lparr>file_name = ''uploads/note.txt'', file_size = Some 0\<rparr>,
           media_size_bytes = Some 0, media_uploaded_at = 30, media_content_type = CT_Post,
           media_object_id = 1, media_uploader_content_type = CT_User,
           media_uploader_object_id = 1\<rparr>)
   \<and> Media_save
       (empty_db\<lparr>app_media :=
            [\<lparr>media_pk = Some 1, media_file = \<lparr>file_name = ''uploads/note.txt'', file_size = Some 0\<rparr>,
              media_size_bytes = Some 0, media_uploaded_at = 30, media_content_type = CT_Post,
              media_object_id = 1, media_uploader_content_type = CT_User,
              media_uploader_object_id = 1\<rparr>]\<rparr>) 40
       \<lparr>media_pk = Some 1, media_file = \<lparr>file_name = ''uploads/note.txt'', file_size = Some 5\<rparr>,
        media_size_bytes = Some 0, media_uploaded_at = 30, media_content_type = CT_Post,
        media_object_id = 1, media_uploader_content_type = CT_User,
        media_uploader_object_id = 1\<rparr>
   = Inr (empty_db\<lparr>app_media :=
            [\<lparr>media_pk = Some 1, media_file = \<lparr>file_name = ''uploads/note.txt'', file_size = Some 5\<rparr>,
              media_size_bytes = Some 5, media_uploaded_at = 30, media_content_type = CT_Post,
              media_object_id = 1, media_uploader_content_type = CT_User,
              media_uploader_object_id = 1\<rparr>]\<rparr>,
          \<lparr>media_pk = Some 1, media_file = \<lparr>file_name = ''uploads/note.txt'', file_size = Some 5\<rparr>,
           media_size_bytes = Some 5, media_uploaded_at = 30, media_content_type = CT_Post,
           media_object_id = 1, media_uploader_content_type = CT_User,
           media_uploader_object_id = 1\<rparr>)"
  by (simp add: Media_save_def Model_save_def py_not_def FieldFile_bool_def empty_db_def
        fresh_pk_def stored_pks_def PositiveBigIntegerField_max_def Let_def)

text \<open>
  C6, as the claim has it: a Media row whose parent reference matches no row, or whose
  parent type is neither Post nor Comment, cannot be created. In the empty database, a
  Media object whose parent is the Like 99 and whose uploader is the BlockReason 77 is
  saved, and the row is stored with these references.
\<close>

theorem Media_save_unchecked_reference:
  "Media_save empty_db 30
     \<lparr>media_pk = None, media_file = \<lparr>file_name = ''uploads/a.png'', file_size = Some 100\<rparr>,
      media_size_bytes = None, media_uploaded_at = 0, media_content_type = CT_Like,
      media_object_id = 99, media_uploader_content_type = CT_BlockReason,
      media_uploader_object_id = 77\<rparr>
   = Inr (empty_db\<lparr>app_media :=
            [\<lparr>media_pk = Some 1, media_file = \<lparr>file_name = ''uploads/a.png'', file_size = Some 100\<rparr>,
              media_size_bytes = Some 100, media_uploaded_at = 30, media_content_type = CT_Like,
              media_object_id = 99, media_uploader_content_type = CT_BlockReason,
              media_uploader_object_id = 77\<rparr>]\<rparr>,
          \<lparr>media_pk = Some 1, media_file = \<lparr>file_name = ''uploads/a.png'', file_size = Some 100\<rparr>,
           media_size_bytes = Some 100, media_uploaded_at = 30, media_content_type = CT_Like,
           media_object_id = 99, media_uploader_content_type = CT_BlockReason,
           media_uploader_object_id = 77\<rparr>)"
  by (simp add: Media_save_def Model_save_def py_not_def FieldFile_bool_def empty_db_def
        fresh_pk_def stored_pks_def PositiveBigIntegerField_max_def Let_def)

text \<open>
  C6, amended. A Media row carries exactly one parent reference and exactly one uploader
  reference, each a pair of a content type and an object id, not separate foreign keys, and
  the save does not look at what the pairs refer to. If a Media object can be saved, then
  the same object can be saved with any other content types and any other object ids that
  fit their 64-bit columns in place of its two pairs, whatever rows the user, block reason,
  post, comment and like tables hold, and the row is then stored with the pairs as given.
  So a Media row whose pair matches no row, or whose parent is neither a Post nor a Comment,
  can be created wherever a Media row can be created at all.
\<close>

theorem Media_save_stores_references:
  assumes "Media_save d now self = Inr (d1, row1)"
      and "oid \<le> PositiveBigIntegerField_max"
      and "uoid \<le> PositiveBigIntegerField_max"
      and "app_media d2 = app_media d"
  shows "\<exists>d' row.
           Media_save d2 now
             (self\<lparr>media_content_type := ct, media_object_id := oid,
                   media_uploader_content_type := uct, media_uploader_object_id := uoid\<rparr>)
             = Inr (d', row)
           \<and> row \<in> set (app_media d')
           \<and> (media_content_type row, media_object_id row) = (ct, oid)
           \<and> (media_uploader_content_type row, media_uploader_object_id row) = (uct, uoid)"
proof -
  let ?self' = "self\<lparr>media_content_type := ct, media_object_id := oid,
                      media_uploader_content_type := uct, media_uploader_object_id := uoid\<rparr>"
  show ?thesis
  proof (cases "py_not (media_size_bytes self) \<and> FieldFile_bool (media_file self)")
    case True
    with assms(1) obtain n where n: "file_size (media_file self) = Some n"
      and fits: "n \<le> PositiveBigIntegerField_max"
      by (cases "file_size (media_file self)")
         (auto simp: Media_save_def Model_save_def split: if_splits)
    from True n have "Media_save d2 now ?self'
                        = Model_save d2 now (?self'\<lparr>media_size_bytes := Some n\<rparr>)"
      by (simp add: Media_save_def)
    with fits assms(2,3) show ?thesis
      by (cases "media_pk self") (auto simp: Model_save_def Let_def)
  next
    case False
    with assms(1) obtain n where n: "media_size_bytes self = Some n"
      and fits: "n \<le> PositiveBigIntegerField_max"
      by (cases "media_size_bytes self")
         (auto simp: Media_save_def Model_save_def split: if_splits)
    from False have "Media_save d2 now ?self' = Model_save d2 now ?self'"
      by (auto simp: Media_save_def)
    with n fits assms(2,3) show ?thesis
      by (cases "media_pk self") (auto simp: Model_save_def Let_def)
  qed
qed

theorem Media_save_stores_references_witness:
  "\<exists>d' row.
     Media_save (example_db\<lparr>app_user := [], app_post := [], app_comment := []\<rparr>) 30
       \<lparr>media_pk = None, media_file = \<lparr>file_name = ''uploads/d.png'', file_size = Some 400\<rparr>,
        media_size_bytes = None, media_uploaded_at = 0, media_content_type = CT_Like,
        media_object_id = 99, media_uploader_content_type = CT_BlockReason,
        media_uploader_object_id = 77\<rparr> = Inr (d', row)
     \<and> row \<in> set (app_media d')
     \<and> (media_content_type row, media_object_id row) = (CT_Like, 99)
     \<and> (media_uploader_content_type row, media_uploader_object_id row) = (CT_BlockReason, 77)"
proof -
  let ?self = "\<lparr>media_pk = None,
                media_file = \<lparr>file_name = ''uploads/d.png'', file_size = Some 400\<rparr>,
                media_size_bytes = None, media_uploaded_at = 0, media_content_type = CT_Post,
                media_object_id = 2, media_uploader_content_type = CT_User,
                media_uploader_object_id = 2\<rparr>"
  let ?row = "?self\<lparr>media_pk := Some 4, media_size_bytes := Some 400, media_uploaded_at := 30\<rparr>"
  have saved: "Media_save example_db 30 ?self
                 = Inr (example_db\<lparr>app_media := app_media example_db @ [?row]\<rparr>, ?row)"
    by (simp add: Media_save_def Model_save_def py_not_def FieldFile_bool_def example_db_def
          fresh_pk_def stored_pks_def PositiveBigIntegerField_max_def Let_def)
  have fits: "(99::nat) \<le> PositiveBigIntegerField_max" "(77::nat) \<le> PositiveBigIntegerField_max"
    by (simp_all add: PositiveBigIntegerField_max_def)
  have same: "app_media (example_db\<lparr>app_user := [], app_post := [], app_comment := []\<rparr>)
                = app_media example_db"
    by simp
  from Media_save_stores_references [OF saved fits same, where ct = CT_Like and uct = CT_BlockReason]
  show ?thesis
    by simp
qed

text \<open>
  C1. For a user \<open>u\<close> whose row exists and a target \<open>(ct, oid)\<close>, which covers every post
  and every comment, that \<open>u\<close> has not liked yet: creating the Like succeeds, and creating
  it a second time raises the constraint violation, as does every later attempt in any
  state of the database that holds a Like of \<open>u\<close> for the target. A failed attempt returns
  no new database, so the stored Like is neither duplicated nor overwritten; after the
  first attempt the table holds exactly one Like for the pair.
\<close>

theorem Like_create_twice:
  assumes "u \<in> set (map user_pk (app_user d))"
      and "(u, ct, oid) \<notin> set (map unique_user_like (app_like d))"
  shows "\<exists>d'. Like_create d now u ct oid = Inr d'
           \<and> Like_create d' now' u ct oid = Inl ConstraintViolation
           \<and> length (filter (\<lambda>l. unique_user_like l = (u, ct, oid)) (app_like d')) = 1
           \<and> (\<forall>d'' t. (u, ct, oid) \<in> set (map unique_user_like (app_like d''))
                 \<longrightarrow> Like_create d'' t u ct oid = Inl ConstraintViolation)"
proof -
  let ?row = "\<lparr>like_pk = fresh_pk (map like_pk (app_like d)), like_user = u,
               like_created_at = now, like_content_type = ct, like_object_id = oid\<rparr>"
  let ?d' = "d\<lparr>app_like := app_like d @ [?row]\<rparr>"
  have 1: "Like_create d now u ct oid = Inr ?d'"
    using assms by (simp add: Like_create_def unique_user_like_def Let_def)
  have 2: "Like_create d'' t u ct oid = Inl ConstraintViolation"
    if "(u, ct, oid) \<in> set (map unique_user_like (app_like d''))" for d'' t
    using that by (simp add: Like_create_def unique_user_like_def Let_def)
  have 3: "(u, ct, oid) \<in> set (map unique_user_like (app_like ?d'))"
    by (simp add: unique_user_like_def)
  have "filter (\<lambda>l. unique_user_like l = (u, ct, oid)) (app_like d) = []"
    using assms(2) by (force simp: filter_empty_conv)
  then have 4: "length (filter (\<lambda>l. unique_user_like l = (u, ct, oid)) (app_like ?d')) = 1"
    by (simp add: unique_user_like_def)
  show ?thesis
    using 1 2[OF 3] 2 4 by blast
qed

theorem Like_create_twice_witness:
  "2 \<in> set (map user_pk (app_user example_db))
   \<and> (2, CT_Post, 2) \<notin> set (map unique_user_like (app_like example_db))
   \<and> (\<exists>d'. Like_create example_db 50 2 CT_Post 2 = Inr d'
          \<and> Like_create d' 51 2 CT_Post 2 = Inl ConstraintViolation)"
proof -
  have a: "2 \<in> set (map user_pk (app_user example_db))"
    by (simp add: example_db_def User_init_def)
  have b: "(2, CT_Post, 2) \<notin> set (map unique_user_like (app_like example_db))"
    by (simp add: example_db_def unique_user_like_def)
  from Like_create_twice [OF a b, of 50 51] a b show ?thesis
    by blast
qed


end
